theory Spec2Isabelle
  imports Complex_Main "HOL-Library.Word"
begin

unbundle bit_operations_syntax

section \<open>The configuration header as a preprocessor program\<close>

text \<open>
  The repository's configuration is \<^verbatim>\<open>firmware/device_config.h\<close>: a list of
  \<^verbatim>\<open>#define\<close> lines (the compiled-in defaults), three preset blocks guarded by
  \<^verbatim>\<open>#ifdef PRESET_...\<close> that \<^verbatim>\<open>#undef\<close> and re-\<^verbatim>\<open>#define\<close> some of
  them, and a validation block of \<^verbatim>\<open>#if ... #error\<close> and \<^verbatim>\<open>#if ... #warning\<close>
  lines. The embedding keeps that shape: the directives are a datatype, the header is a
  directive list transcribed line by line, and the C preprocessor is an interpreter over
  a macro table.
\<close>

subsection \<open>Macro bodies and the macro table\<close>

text \<open>
  A macro body in this header is a single token: a string literal, an integer literal,
  a decimal literal, \<^verbatim>\<open>true\<close>/\<^verbatim>\<open>false\<close>, a bare identifier (a pin such as
  \<^verbatim>\<open>A0\<close> or a sensor type such as \<^verbatim>\<open>DHT22\<close>), or nothing at all (the
  include guard and the \<^verbatim>\<open>PRESET_...\<close> switches). Decimal literals are kept as the
  rational the text denotes.
\<close>

datatype macro_val =
    StrV string
  | IntV int
  | DecV rat
  | BoolV bool
  | SymV string
  | FlagV

type_synonym macro_env = "(string \<times> macro_val) list"

text \<open>The table holds one definition per name, in the order of definition.\<close>

fun cpp_undef :: "string \<Rightarrow> macro_env \<Rightarrow> macro_env" where
  "cpp_undef k [] = []"
| "cpp_undef k ((k', v) # env) =
     (if k' = k then cpp_undef k env else (k', v) # cpp_undef k env)"

fun cpp_define :: "string \<Rightarrow> macro_val \<Rightarrow> macro_env \<Rightarrow> macro_env" where
  "cpp_define k v [] = [(k, v)]"
| "cpp_define k v ((k', v') # env) =
     (if k' = k then (k, v) # env else (k', v') # cpp_define k v env)"

definition cpp_defined :: "macro_env \<Rightarrow> string \<Rightarrow> bool" where
  "cpp_defined env k = (map_of env k \<noteq> None)"

subsection \<open>Conditions of \<^verbatim>\<open>#if\<close>\<close>

datatype cond =
    Defined string
  | Macro string
  | Not cond
  | And cond cond
  | Or cond cond

text \<open>
  The value of a macro body inside \<^verbatim>\<open>#if\<close>. The firmware is an Arduino (C++)
  sketch, so \<^verbatim>\<open>true\<close> and \<^verbatim>\<open>false\<close> count as 1 and 0; an identifier that is not a
  macro counts as 0; a string, a decimal or an empty body is not a valid operand. A body
  that is a bare identifier is read as a name that is not itself a macro of the table:
  the pins and sensor types of this header are declared by the Arduino core and its
  libraries, and no body of the header names another macro of the header.
\<close>

fun token_value :: "macro_val \<Rightarrow> int option" where
  "token_value (StrV s) = None"
| "token_value (IntV i) = Some i"
| "token_value (DecV r) = None"
| "token_value (BoolV b) = Some (if b then 1 else 0)"
| "token_value (SymV s) = Some 0"
| "token_value FlagV = None"

fun eval_cond :: "macro_env \<Rightarrow> cond \<Rightarrow> int option" where
  "eval_cond env (Defined k) = Some (if cpp_defined env k then 1 else 0)"
| "eval_cond env (Macro k) =
     (case map_of env k of None \<Rightarrow> Some 0 | Some v \<Rightarrow> token_value v)"
| "eval_cond env (Not c) =
     (case eval_cond env c of None \<Rightarrow> None
      | Some x \<Rightarrow> Some (if x = 0 then 1 else 0))"
| "eval_cond env (And a b) =
     (case eval_cond env a of None \<Rightarrow> None
      | Some x \<Rightarrow> (case eval_cond env b of None \<Rightarrow> None
          | Some y \<Rightarrow> Some (if x = 0 then 0 else if y = 0 then 0 else 1)))"
| "eval_cond env (Or a b) =
     (case eval_cond env a of None \<Rightarrow> None
      | Some x \<Rightarrow> (case eval_cond env b of None \<Rightarrow> None
          | Some y \<Rightarrow> Some (if x = 0 then (if y = 0 then 0 else 1) else 1)))"

fun cond_macros :: "cond \<Rightarrow> string list" where
  "cond_macros (Defined k) = [k]"
| "cond_macros (Macro k) = [k]"
| "cond_macros (Not c) = cond_macros c"
| "cond_macros (And a b) = cond_macros a @ cond_macros b"
| "cond_macros (Or a b) = cond_macros a @ cond_macros b"

subsection \<open>Directives and diagnostics\<close>

datatype severity = Error | Warning

text \<open>
  A diagnostic: its severity, the text after \<^verbatim>\<open>#error\<close> or \<^verbatim>\<open>#warning\<close>, and
  the macros tested by the \<^verbatim>\<open>#if\<close> that guards it.
\<close>

record issue =
  severity :: severity
  message :: string
  affected :: "string list"

datatype directive =
    Define string macro_val
  | Undef string
  | Ifdef string "directive list"
  | Ifndef string "directive list"
  | If cond "directive list"
  | HashError string
  | HashWarning string

record cpp_state =
  macros :: macro_env
  diagnostics :: "issue list"

definition report :: "severity \<Rightarrow> string \<Rightarrow> string list \<Rightarrow> cpp_state \<Rightarrow> cpp_state" where
  "report sev msg ctx s =
     s\<lparr>diagnostics := diagnostics s @ [\<lparr>severity = sev, message = msg, affected = ctx\<rparr>]\<rparr>"

text \<open>
  The interpreter. \<open>ctx\<close> is the list of macros tested by the innermost enclosing
  \<^verbatim>\<open>#if\<close>. Diagnostics are collected in order (the compiler reports every
  \<^verbatim>\<open>#error\<close> and \<^verbatim>\<open>#warning\<close> it meets). Defining a name that is already
  defined with another body is reported as a warning and the new body replaces the old
  one; an \<^verbatim>\<open>#if\<close> whose expression has an invalid operand is reported as an error
  and its group is skipped.
\<close>

fun cpp_exec :: "string list \<Rightarrow> directive \<Rightarrow> cpp_state \<Rightarrow> cpp_state"
  and cpp_run :: "string list \<Rightarrow> directive list \<Rightarrow> cpp_state \<Rightarrow> cpp_state" where
  "cpp_exec ctx (Define k v) s =
     (case map_of (macros s) k of
        None \<Rightarrow> s\<lparr>macros := cpp_define k v (macros s)\<rparr>
      | Some v' \<Rightarrow>
          (if v' = v then s
           else report Warning (k @ '' redefined'') [k] (s\<lparr>macros := cpp_define k v (macros s)\<rparr>)))"
| "cpp_exec ctx (Undef k) s = s\<lparr>macros := cpp_undef k (macros s)\<rparr>"
| "cpp_exec ctx (Ifdef k ds) s = (if cpp_defined (macros s) k then cpp_run ctx ds s else s)"
| "cpp_exec ctx (Ifndef k ds) s = (if cpp_defined (macros s) k then s else cpp_run ctx ds s)"
| "cpp_exec ctx (If c ds) s =
     (case eval_cond (macros s) c of
        None \<Rightarrow> report Error ''invalid preprocessor expression'' (cond_macros c) s
      | Some x \<Rightarrow> (if x = 0 then s else cpp_run (cond_macros c) ds s))"
| "cpp_exec ctx (HashError msg) s = report Error msg ctx s"
| "cpp_exec ctx (HashWarning msg) s = report Warning msg ctx s"
| "cpp_run ctx [] s = s"
| "cpp_run ctx (d # ds) s = cpp_run ctx ds (cpp_exec ctx d s)"

definition cpp_init :: cpp_state where
  "cpp_init = \<lparr>macros = [], diagnostics = []\<rparr>"

subsection \<open>The header, line by line\<close>

text \<open>Lines 7--133 of \<^verbatim>\<open>device_config.h\<close>: the compiled-in defaults.\<close>

definition default_defines :: "directive list" where
  "default_defines =
   [Define ''DEVICE_ID'' (StrV ''ESP8266_001''),
    Define ''DEVICE_NAME'' (StrV ''Kitchen Sensor Node''),
    Define ''DEVICE_LOCATION'' (StrV ''Kitchen''),
    Define ''FIRMWARE_VERSION'' (StrV ''2.1.0''),
    Define ''WIFI_SSID'' (StrV ''YOUR_WIFI_NETWORK''),
    Define ''WIFI_PASSWORD'' (StrV ''YOUR_WIFI_PASSWORD''),
    Define ''WIFI_CONNECT_TIMEOUT_SEC'' (IntV 30),
    Define ''WIFI_RECONNECT_ATTEMPTS'' (IntV 3),
    Define ''WIFI_RECONNECT_DELAY_MS'' (IntV 5000),
    Define ''SERVER_URL'' (StrV ''https://your-iot-platform.com''),
    Define ''SERVER_API_KEY'' (StrV ''your-api-key-here''),
    Define ''USE_HTTPS'' (BoolV True),
    Define ''SERVER_FINGERPRINT'' (StrV []),
    Define ''HEARTBEAT_INTERVAL_SEC'' (IntV 300),
    Define ''SENSOR_READ_INTERVAL_MS'' (IntV 5000),
    Define ''TELEMETRY_BATCH_SIZE'' (IntV 5),
    Define ''DEVICE_ARMED'' (BoolV True),
    Define ''DEBUG_MODE'' (BoolV False),
    Define ''OTA_ENABLED'' (BoolV True),
    Define ''SENSOR_DHT_ENABLED'' (BoolV True),
    Define ''SENSOR_DHT_PIN'' (SymV ''D4''),
    Define ''SENSOR_DHT_TYPE'' (SymV ''DHT22''),
    Define ''TEMP_THRESHOLD_MIN'' (DecV (- 10)),
    Define ''TEMP_THRESHOLD_MAX'' (DecV 40),
    Define ''HUMIDITY_THRESHOLD_MIN'' (DecV 20),
    Define ''HUMIDITY_THRESHOLD_MAX'' (DecV 80),
    Define ''SENSOR_LIGHT_ENABLED'' (BoolV True),
    Define ''SENSOR_LIGHT_PIN'' (SymV ''A0''),
    Define ''LIGHT_THRESHOLD_MIN'' (IntV 100),
    Define ''LIGHT_THRESHOLD_MAX'' (IntV 900),
    Define ''LIGHT_CALIBRATION_OFFSET'' (DecV 0),
    Define ''LIGHT_CALIBRATION_MULTIPLIER'' (DecV 1),
    Define ''SENSOR_MOTION_ENABLED'' (BoolV True),
    Define ''SENSOR_MOTION_PIN'' (SymV ''D2''),
    Define ''MOTION_THRESHOLD_MIN'' (IntV 0),
    Define ''MOTION_THRESHOLD_MAX'' (IntV 1),
    Define ''MOTION_DETECTION_TIMEOUT_MS'' (IntV 30000),
    Define ''SENSOR_DISTANCE_ENABLED'' (BoolV True),
    Define ''SENSOR_DISTANCE_TRIGGER_PIN'' (SymV ''D5''),
    Define ''SENSOR_DISTANCE_ECHO_PIN'' (SymV ''D6''),
    Define ''DISTANCE_THRESHOLD_MIN'' (DecV 5),
    Define ''DISTANCE_THRESHOLD_MAX'' (DecV 200),
    Define ''SENSOR_SOUND_ENABLED'' (BoolV False),
    Define ''SENSOR_SOUND_PIN'' (SymV ''A0''),
    Define ''SOUND_THRESHOLD_MIN'' (IntV 100),
    Define ''SOUND_THRESHOLD_MAX'' (IntV 800),
    Define ''SENSOR_MAGNETIC_ENABLED'' (BoolV False),
    Define ''SENSOR_MAGNETIC_PIN'' (SymV ''D3''),
    Define ''MAGNETIC_THRESHOLD_MIN'' (IntV 0),
    Define ''MAGNETIC_THRESHOLD_MAX'' (IntV 1),
    Define ''SENSOR_VIBRATION_ENABLED'' (BoolV False),
    Define ''SENSOR_VIBRATION_PIN'' (SymV ''D7''),
    Define ''VIBRATION_THRESHOLD_MIN'' (IntV 0),
    Define ''VIBRATION_THRESHOLD_MAX'' (IntV 1),
    Define ''SENSOR_GAS_ENABLED'' (BoolV False),
    Define ''SENSOR_GAS_PIN'' (SymV ''A0''),
    Define ''GAS_THRESHOLD_MIN'' (IntV 100),
    Define ''GAS_THRESHOLD_MAX'' (IntV 600),
    Define ''WATCHDOG_TIMEOUT_MS'' (IntV 30000),
    Define ''CONFIG_EEPROM_ADDR'' (IntV 0),
    Define ''CONFIG_MAGIC_NUMBER'' (IntV 0x12345678),
    Define ''MAX_FAILED_CONNECTIONS'' (IntV 5),
    Define ''USE_JSON_COMPRESSION'' (BoolV False),
    Define ''MAX_RETRY_ATTEMPTS'' (IntV 3),
    Define ''HTTP_REQUEST_TIMEOUT_MS'' (IntV 10000),
    Define ''DEEP_SLEEP_ENABLED'' (BoolV False),
    Define ''DEEP_SLEEP_DURATION_SEC'' (IntV 300),
    Define ''BATTERY_MONITORING_ENABLED'' (BoolV False),
    Define ''LOW_BATTERY_THRESHOLD_V'' (DecV (16 / 5))]"

text \<open>Lines 140--187: the three presets. Each block runs when its switch is defined.\<close>

datatype preset = PRESET_KITCHEN | PRESET_SECURITY | PRESET_ENVIRONMENTAL

fun preset_macro :: "preset \<Rightarrow> string" where
  "preset_macro PRESET_KITCHEN = ''PRESET_KITCHEN''"
| "preset_macro PRESET_SECURITY = ''PRESET_SECURITY''"
| "preset_macro PRESET_ENVIRONMENTAL = ''PRESET_ENVIRONMENTAL''"

fun preset_block :: "preset \<Rightarrow> directive list" where
  "preset_block PRESET_KITCHEN =
   [Undef ''DEVICE_ID'', Undef ''DEVICE_NAME'', Undef ''DEVICE_LOCATION'',
    Define ''DEVICE_ID'' (StrV ''KITCHEN_001''),
    Define ''DEVICE_NAME'' (StrV ''Kitchen Monitor''),
    Define ''DEVICE_LOCATION'' (StrV ''Kitchen''),
    Undef ''SENSOR_MOTION_ENABLED'',
    Define ''SENSOR_MOTION_ENABLED'' (BoolV False),
    Undef ''TEMP_THRESHOLD_MAX'',
    Define ''TEMP_THRESHOLD_MAX'' (DecV 35)]"
| "preset_block PRESET_SECURITY =
   [Undef ''DEVICE_ID'', Undef ''DEVICE_NAME'', Undef ''DEVICE_LOCATION'',
    Define ''DEVICE_ID'' (StrV ''SECURITY_001''),
    Define ''DEVICE_NAME'' (StrV ''Security Sensor''),
    Define ''DEVICE_LOCATION'' (StrV ''Front Door''),
    Undef ''SENSOR_DHT_ENABLED'',
    Define ''SENSOR_DHT_ENABLED'' (BoolV False),
    Undef ''SENSOR_MAGNETIC_ENABLED'',
    Define ''SENSOR_MAGNETIC_ENABLED'' (BoolV True),
    Undef ''HEARTBEAT_INTERVAL_SEC'',
    Define ''HEARTBEAT_INTERVAL_SEC'' (IntV 60)]"
| "preset_block PRESET_ENVIRONMENTAL =
   [Undef ''DEVICE_ID'', Undef ''DEVICE_NAME'', Undef ''DEVICE_LOCATION'',
    Define ''DEVICE_ID'' (StrV ''ENV_001''),
    Define ''DEVICE_NAME'' (StrV ''Environmental Monitor''),
    Define ''DEVICE_LOCATION'' (StrV ''Living Room''),
    Undef ''SENSOR_MOTION_ENABLED'',
    Define ''SENSOR_MOTION_ENABLED'' (BoolV False),
    Undef ''SENSOR_DISTANCE_ENABLED'',
    Define ''SENSOR_DISTANCE_ENABLED'' (BoolV False),
    Undef ''SENSOR_GAS_ENABLED'',
    Define ''SENSOR_GAS_ENABLED'' (BoolV True)]"

text \<open>
  Each preset is preceded by a commented-out \<^verbatim>\<open>// #define PRESET_...\<close>; selecting a
  preset means uncommenting that line. \<open>sel\<close> says which line, if any, is uncommented.
\<close>

definition preset_switch :: "preset option \<Rightarrow> preset \<Rightarrow> directive list" where
  "preset_switch sel p = (if sel = Some p then [Define (preset_macro p) FlagV] else [])"

definition preset_section :: "preset option \<Rightarrow> directive list" where
  "preset_section sel =
     preset_switch sel PRESET_KITCHEN @
       [Ifdef ''PRESET_KITCHEN'' (preset_block PRESET_KITCHEN)] @
     preset_switch sel PRESET_SECURITY @
       [Ifdef ''PRESET_SECURITY'' (preset_block PRESET_SECURITY)] @
     preset_switch sel PRESET_ENVIRONMENTAL @
       [Ifdef ''PRESET_ENVIRONMENTAL'' (preset_block PRESET_ENVIRONMENTAL)]"

text \<open>Lines 192--206: the validation block.\<close>

definition validation_block :: "directive list" where
  "validation_block =
   [If (Or (Not (Defined ''WIFI_SSID'')) (Not (Defined ''WIFI_PASSWORD'')))
      [HashError ''WiFi credentials must be configured in WIFI_SSID and WIFI_PASSWORD''],
    If (Not (Defined ''SERVER_URL''))
      [HashError ''Server URL must be configured in SERVER_URL''],
    If (And (Macro ''SENSOR_LIGHT_ENABLED'') (Macro ''SENSOR_SOUND_ENABLED''))
      [HashWarning ''Light and Sound sensors both use A0 - only one can be enabled''],
    If (And (Macro ''SENSOR_LIGHT_ENABLED'') (Macro ''SENSOR_GAS_ENABLED''))
      [HashWarning ''Light and Gas sensors both use A0 - only one can be enabled'']]"

text \<open>The whole file, inside its include guard.\<close>

definition device_config_h :: "preset option \<Rightarrow> directive list" where
  "device_config_h sel =
   [Ifndef ''DEVICE_CONFIG_H''
      (Define ''DEVICE_CONFIG_H'' FlagV # default_defines @ preset_section sel @ validation_block)]"

definition compile_header :: "preset option \<Rightarrow> cpp_state" where
  "compile_header sel = cpp_run [] (device_config_h sel) cpp_init"

subsection \<open>Registry, overlays, resolution and validation, as the header has them\<close>

text \<open>
  The registry is the macro table after the include guard and the defaults; an overlay is
  the name of a preset switch with the \<^verbatim>\<open>#define\<close> lines of its block; resolving
  is what the preprocessor does with a selected preset: the switch is defined, then each
  overridden name is undefined and defined again.
\<close>

definition registry :: macro_env where
  "registry = macros (cpp_run [] (Define ''DEVICE_CONFIG_H'' FlagV # default_defines) cpp_init)"

record overlay =
  overlay_id :: string
  overrides :: "(string \<times> macro_val) list"

fun block_defines :: "directive list \<Rightarrow> (string \<times> macro_val) list" where
  "block_defines [] = []"
| "block_defines (Define k v # ds) = (k, v) # block_defines ds"
| "block_defines (d # ds) = block_defines ds"

definition overlay_of :: "preset \<Rightarrow> overlay" where
  "overlay_of p = \<lparr>overlay_id = preset_macro p, overrides = block_defines (preset_block p)\<rparr>"

fun apply_overrides :: "(string \<times> macro_val) list \<Rightarrow> macro_env \<Rightarrow> macro_env" where
  "apply_overrides [] env = env"
| "apply_overrides ((k, v) # ov) env = apply_overrides ov (cpp_define k v (cpp_undef k env))"

definition resolve :: "macro_env \<Rightarrow> overlay option \<Rightarrow> macro_env" where
  "resolve reg sel =
     (case sel of
        None \<Rightarrow> reg
      | Some ov \<Rightarrow> apply_overrides (overrides ov) (cpp_define (overlay_id ov) FlagV reg))"

text \<open>The configuration the header itself yields for a selection.\<close>

definition resolved_config :: "preset option \<Rightarrow> macro_env" where
  "resolved_config sel = macros (compile_header sel)"

text \<open>The values a configuration holds for a key.\<close>

definition entries_for :: "macro_env \<Rightarrow> string \<Rightarrow> macro_val list" where
  "entries_for cfg k = map snd (filter (\<lambda>p. fst p = k) cfg)"

text \<open>Validation: the validation block run on a configuration.\<close>

definition validate :: "macro_env \<Rightarrow> issue list" where
  "validate cfg = diagnostics (cpp_run [] validation_block \<lparr>macros = cfg, diagnostics = []\<rparr>)"

definition errors_of :: "issue list \<Rightarrow> issue list" where
  "errors_of is = filter (\<lambda>i. severity i = Error) is"

definition warnings_of :: "issue list \<Rightarrow> issue list" where
  "warnings_of is = filter (\<lambda>i. severity i = Warning) is"

definition activatable :: "macro_env \<Rightarrow> bool" where
  "activatable cfg = (errors_of (validate cfg) = [])"



definition light_sound_warning :: issue where
  "light_sound_warning =
     \<lparr>severity = Warning,
      message = ''Light and Sound sensors both use A0 - only one can be enabled'',
      affected = [''SENSOR_LIGHT_ENABLED'', ''SENSOR_SOUND_ENABLED'']\<rparr>"

definition light_gas_warning :: issue where
  "light_gas_warning =
     \<lparr>severity = Warning,
      message = ''Light and Gas sensors both use A0 - only one can be enabled'',
      affected = [''SENSOR_LIGHT_ENABLED'', ''SENSOR_GAS_ENABLED'']\<rparr>"

text \<open>The macros the validation block reads.\<close>

fun directive_macros :: "directive \<Rightarrow> string list" where
  "directive_macros (If c ds) = cond_macros c @ concat (map directive_macros ds)"
| "directive_macros (Ifdef k ds) = k # concat (map directive_macros ds)"
| "directive_macros (Ifndef k ds) = k # concat (map directive_macros ds)"
| "directive_macros (Define k v) = [k]"
| "directive_macros (Undef k) = [k]"
| "directive_macros (HashError msg) = []"
| "directive_macros (HashWarning msg) = []"

definition validation_macros :: "string list" where
  "validation_macros = remdups (concat (map directive_macros validation_block))"

subsection \<open>Sensors, pins and thresholds\<close>

text \<open>
  A sensor \<open>X\<close> is switched by \<^verbatim>\<open>SENSOR_X_ENABLED\<close> and wired to
  \<^verbatim>\<open>SENSOR_X_PIN\<close>; a measured quantity \<open>Q\<close> has the pair
  \<^verbatim>\<open>Q_THRESHOLD_MIN\<close>, \<^verbatim>\<open>Q_THRESHOLD_MAX\<close>.
\<close>

definition enabled_key :: "string \<Rightarrow> string" where
  "enabled_key x = ''SENSOR_'' @ x @ ''_ENABLED''"

definition pin_key :: "string \<Rightarrow> string" where
  "pin_key x = ''SENSOR_'' @ x @ ''_PIN''"

definition sensor_enabled :: "macro_env \<Rightarrow> string \<Rightarrow> bool" where
  "sensor_enabled cfg x = (map_of cfg (enabled_key x) = Some (BoolV True))"

definition sensor_pin :: "macro_env \<Rightarrow> string \<Rightarrow> macro_val option" where
  "sensor_pin cfg x = map_of cfg (pin_key x)"

definition threshold_quantities :: "string list" where
  "threshold_quantities =
     [''TEMP'', ''HUMIDITY'', ''LIGHT'', ''MOTION'', ''DISTANCE'', ''SOUND'', ''MAGNETIC'',
      ''VIBRATION'', ''GAS'']"

definition min_key :: "string \<Rightarrow> string" where
  "min_key q = q @ ''_THRESHOLD_MIN''"

definition max_key :: "string \<Rightarrow> string" where
  "max_key q = q @ ''_THRESHOLD_MAX''"

fun numeric_value :: "macro_val \<Rightarrow> rat option" where
  "numeric_value (IntV i) = Some (of_int i)"
| "numeric_value (DecV r) = Some r"
| "numeric_value v = None"

definition threshold_of :: "macro_env \<Rightarrow> string \<Rightarrow> rat option" where
  "threshold_of cfg k = (case map_of cfg k of None \<Rightarrow> None | Some v \<Rightarrow> numeric_value v)"

text \<open>A pair is ordered when both bounds are numbers and the lower is strictly less.\<close>

definition threshold_ordered :: "macro_env \<Rightarrow> string \<Rightarrow> bool" where
  "threshold_ordered cfg q =
     (case threshold_of cfg (min_key q) of
        None \<Rightarrow> False
      | Some lo \<Rightarrow> (case threshold_of cfg (max_key q) of None \<Rightarrow> False | Some hi \<Rightarrow> lo < hi))"

text \<open>A required field is present when it is defined as a non-empty string.\<close>

definition nonempty_string :: "macro_env \<Rightarrow> string \<Rightarrow> bool" where
  "nonempty_string cfg k =
     (case map_of cfg k of Some (StrV s) \<Rightarrow> s \<noteq> [] | _ \<Rightarrow> False)"

definition required_keys :: "string list" where
  "required_keys = [''DEVICE_ID'', ''DEVICE_NAME'', ''WIFI_SSID'', ''WIFI_PASSWORD'', ''SERVER_URL'']"

text \<open>
  What one \<^verbatim>\<open>#if c\<close> \<^verbatim>\<open>#error msg\<close> (or \<^verbatim>\<open>#warning msg\<close>) \<^verbatim>\<open>#endif\<close>
  group adds to the diagnostics, as a function of the macro table.
\<close>

definition guarded_issue :: "macro_env \<Rightarrow> cond \<Rightarrow> severity \<Rightarrow> string \<Rightarrow> issue list" where
  "guarded_issue env c sev msg =
     (case eval_cond env c of
        None \<Rightarrow>
          [\<lparr>severity = Error, message = ''invalid preprocessor expression'',
            affected = cond_macros c\<rparr>]
      | Some x \<Rightarrow>
          (if x = 0 then [] else [\<lparr>severity = sev, message = msg, affected = cond_macros c\<rparr>]))"

subsection \<open>Configurations used as test inputs\<close>

text \<open>
  The header is edited by hand (its first lines say so); an edited header is the registry
  with some lines replaced.
\<close>

definition edit_header :: "(string \<times> macro_val) list \<Rightarrow> macro_env" where
  "edit_header changes = apply_overrides changes registry"

definition sound_gas_config :: macro_env where
  "sound_gas_config =
     edit_header
       [(''SENSOR_LIGHT_ENABLED'', BoolV False),
        (''SENSOR_SOUND_ENABLED'', BoolV True),
        (''SENSOR_GAS_ENABLED'', BoolV True)]"

definition inverted_temp_config :: macro_env where
  "inverted_temp_config =
     edit_header [(''TEMP_THRESHOLD_MIN'', DecV 40), (''TEMP_THRESHOLD_MAX'', DecV (- 10))]"




section \<open>The persisted store guard\<close>

text \<open>
  \<^verbatim>\<open>device_config.h\<close> declares the guard's constants (\<^verbatim>\<open>CONFIG_EEPROM_ADDR\<close>,
  \<^verbatim>\<open>CONFIG_MAGIC_NUMBER\<close>, \<^verbatim>\<open>MAX_FAILED_CONNECTIONS\<close>); the code that loads, saves
  and counts is not among the repository's files here. The definitions of this section
  follow section 4.5 of the specification. What the specification leaves open (the
  encoding of a configuration, the integrity tag's function, the schema versions that are
  recognised) is a parameter.
\<close>

type_synonym byte = "8 word"

text \<open>
  Modelled from the spec: the PersistedRecord of section 3 (schema version, integrity
  tag, serialized configuration bytes); its reader and writer are missing from the files.
\<close>

record persisted_record =
  schema_version :: nat
  integrity_tag :: "32 word"
  payload :: "byte list"

text \<open>
  Modelled from the spec: the parts of the record format that section 6 calls
  version-specific: the encoding, its inverse, the tag computed over the bytes, the
  version that \<open>save\<close> writes and the versions that \<open>load\<close> recognises.
\<close>

record codec =
  encode :: "macro_env \<Rightarrow> byte list"
  decode :: "byte list \<Rightarrow> macro_env option"
  tag_bytes :: "byte list \<Rightarrow> 32 word"
  current_version :: nat
  known_versions :: "nat list"

text \<open>
  Modelled from the spec: the non-volatile cell at the record's fixed address; \<open>None\<close>
  is a cell never written.
\<close>

type_synonym storage = "persisted_record option"

datatype load_outcome = VALID macro_env | CORRUPT | ABSENT

datatype save_error = PRECONDITION_FAILED

text \<open>
  Modelled from the spec: \<open>load()\<close> of section 4.5. A record whose schema version is
  unknown, or whose tag differs from the tag recomputed over the stored bytes, is
  \<open>CORRUPT\<close>; so is one whose bytes do not decode.
\<close>

definition load :: "codec \<Rightarrow> storage \<Rightarrow> load_outcome" where
  "load c st =
     (case st of
        None \<Rightarrow> ABSENT
      | Some r \<Rightarrow>
          (if schema_version r \<notin> set (known_versions c) then CORRUPT
           else if tag_bytes c (payload r) \<noteq> integrity_tag r then CORRUPT
           else (case decode c (payload r) of None \<Rightarrow> CORRUPT | Some cfg \<Rightarrow> VALID cfg)))"

text \<open>
  Modelled from the spec: \<open>save(config)\<close> of section 4.5. It accepts only an
  activatable configuration and writes version, tag and bytes as one unit.
\<close>

definition save :: "codec \<Rightarrow> macro_env \<Rightarrow> storage \<Rightarrow> save_error + storage" where
  "save c cfg st =
     (if activatable cfg
      then Inr (Some \<lparr>schema_version = current_version c,
                      integrity_tag = tag_bytes c (encode c cfg),
                      payload = encode c cfg\<rparr>)
      else Inl PRECONDITION_FAILED)"

text \<open>
  Modelled from the spec: the caller's boot path of section 4.5. A valid record is
  used as it is; otherwise the configuration is resolved again from the compiled-in
  header and saved to repair the store. The result is the active configuration and the
  store.
\<close>

definition boot :: "codec \<Rightarrow> preset option \<Rightarrow> storage \<Rightarrow> macro_env \<times> storage" where
  "boot c sel st =
     (case load c st of
        VALID cfg \<Rightarrow> (cfg, st)
      | _ \<Rightarrow>
          (let cfg = resolved_config sel
           in (cfg, case save c cfg st of Inl e \<Rightarrow> st | Inr st' \<Rightarrow> st')))"

text \<open>
  Modelled from the spec: the failure count of section 4.5, driven by the connectivity
  reporter's events of section 6. It counts consecutive failures, so a success starts
  the count again; the restart request is a signal read from the count, never an action.
\<close>

datatype conn_event = ConnectSuccess | ConnectFailure

fun on_event :: "nat \<Rightarrow> conn_event \<Rightarrow> nat" where
  "on_event count ConnectSuccess = 0"
| "on_event count ConnectFailure = Suc count"

definition run_events :: "conn_event list \<Rightarrow> nat" where
  "run_events evs = foldl on_event 0 evs"

definition restart_requested :: "nat \<Rightarrow> nat \<Rightarrow> bool" where
  "restart_requested limit count = (limit \<le> count)"

text \<open>The ceiling a configuration sets: \<^verbatim>\<open>MAX_FAILED_CONNECTIONS\<close> (line 122).\<close>

definition failure_ceiling :: "macro_env \<Rightarrow> nat option" where
  "failure_ceiling cfg =
     (case map_of cfg ''MAX_FAILED_CONNECTIONS'' of
        Some (IntV n) \<Rightarrow> (if 0 \<le> n then Some (nat n) else None)
      | _ \<Rightarrow> None)"

text \<open>The number of failures at the end of a trace, since the last success.\<close>

definition trailing_failures :: "conn_event list \<Rightarrow> nat" where
  "trailing_failures evs = length (takeWhile (\<lambda>e. e = ConnectFailure) (rev evs))"

subsection \<open>A record format used as a concrete input\<close>

text \<open>
  The theorems about the guard hold for every record format. To apply them to a concrete
  input a format is needed; this one is a test fixture, not part of the repository. An
  entry is its name and its value, strings are length-prefixed, integers are a sign byte
  and four big-endian bytes, and the tag is the magic number of line 121 plus the sum of
  the bytes.
\<close>

definition string_bytes :: "string \<Rightarrow> byte list" where
  "string_bytes s = map (\<lambda>ch. of_nat (of_char ch)) s"

definition bytes_string :: "byte list \<Rightarrow> string" where
  "bytes_string bs = map (\<lambda>b. char_of (unat b)) bs"

definition be32 :: "nat \<Rightarrow> byte list" where
  "be32 n = [of_nat (n div 16777216), of_nat (n div 65536), of_nat (n div 256), of_nat n]"

definition nat_of_bytes :: "byte list \<Rightarrow> nat" where
  "nat_of_bytes bs = foldl (\<lambda>a b. 256 * a + unat b) 0 bs"

fun encode_val :: "macro_val \<Rightarrow> byte list" where
  "encode_val (StrV s) = 0 # of_nat (length s) # string_bytes s"
| "encode_val (IntV i) = 1 # (if i < 0 then 1 else 0) # be32 (nat \<bar>i\<bar>)"
| "encode_val (DecV r) =
     (case quotient_of r of
        (n, d) \<Rightarrow> 2 # (if n < 0 then 1 else 0) # be32 (nat \<bar>n\<bar>) @ be32 (nat d))"
| "encode_val (BoolV b) = [3, if b then 1 else 0]"
| "encode_val (SymV s) = 4 # of_nat (length s) # string_bytes s"
| "encode_val FlagV = [5]"

definition take_string :: "byte list \<Rightarrow> (string \<times> byte list) option" where
  "take_string bs =
     (case bs of
        [] \<Rightarrow> None
      | n # r \<Rightarrow>
          (if length r < unat n then None
           else Some (bytes_string (take (unat n) r), drop (unat n) r)))"

definition signed :: "byte \<Rightarrow> byte list \<Rightarrow> int" where
  "signed s bs = (if s = 0 then int (nat_of_bytes bs) else - int (nat_of_bytes bs))"

fun decode_val :: "byte list \<Rightarrow> (macro_val \<times> byte list) option" where
  "decode_val [] = None"
| "decode_val (t # bs) =
     (if t = 0 then
        (case take_string bs of None \<Rightarrow> None | Some (s, r) \<Rightarrow> Some (StrV s, r))
      else if t = 1 then
        (case bs of
           s # a # b # c # d # r \<Rightarrow> Some (IntV (signed s [a, b, c, d]), r)
         | _ \<Rightarrow> None)
      else if t = 2 then
        (case bs of
           s # a # b # c # d # e # f # g # h # r \<Rightarrow>
             Some (DecV (Fract (signed s [a, b, c, d]) (int (nat_of_bytes [e, f, g, h]))), r)
         | _ \<Rightarrow> None)
      else if t = 3 then
        (case bs of b # r \<Rightarrow> Some (BoolV (b \<noteq> 0), r) | _ \<Rightarrow> None)
      else if t = 4 then
        (case take_string bs of None \<Rightarrow> None | Some (s, r) \<Rightarrow> Some (SymV s, r))
      else if t = 5 then Some (FlagV, bs)
      else None)"

definition encode_entry :: "string \<times> macro_val \<Rightarrow> byte list" where
  "encode_entry e = of_nat (length (fst e)) # string_bytes (fst e) @ encode_val (snd e)"

definition decode_entry :: "byte list \<Rightarrow> ((string \<times> macro_val) \<times> byte list) option" where
  "decode_entry bs =
     (case take_string bs of
        None \<Rightarrow> None
      | Some (k, r) \<Rightarrow>
          (case decode_val r of None \<Rightarrow> None | Some (v, r') \<Rightarrow> Some ((k, v), r')))"

text \<open>The bound \<open>n\<close> is the number of entries still allowed; the length of the input is enough.\<close>

primrec decode_entries :: "nat \<Rightarrow> byte list \<Rightarrow> macro_env option" where
  "decode_entries 0 bs = (if bs = [] then Some [] else None)"
| "decode_entries (Suc n) bs =
     (if bs = [] then Some []
      else (case decode_entry bs of
              None \<Rightarrow> None
            | Some (e, r) \<Rightarrow>
                (case decode_entries n r of None \<Rightarrow> None | Some es \<Rightarrow> Some (e # es))))"

definition sample_codec :: codec where
  "sample_codec =
     \<lparr>encode = (\<lambda>cfg. concat (map encode_entry cfg)),
      decode = (\<lambda>bs. decode_entries (length bs) bs),
      tag_bytes = (\<lambda>bs. 0x12345678 + sum_list (map ucast bs)),
      current_version = 1,
      known_versions = [1]\<rparr>"

text \<open>A record whose tag has one byte flipped, and one written by a newer firmware.\<close>

definition flipped_tag_record :: persisted_record where
  "flipped_tag_record =
     \<lparr>schema_version = 1,
      integrity_tag = tag_bytes sample_codec (encode sample_codec (resolved_config None)) XOR 0xFF,
      payload = encode sample_codec (resolved_config None)\<rparr>"

definition future_record :: persisted_record where
  "future_record =
     \<lparr>schema_version = 2,
      integrity_tag = tag_bytes sample_codec (encode sample_codec (resolved_config None)),
      payload = encode sample_codec (resolved_config None)\<rparr>"

section \<open>Properties\<close>

subsection \<open>The macro table\<close>

lemma map_of_cpp_undef: "map_of (cpp_undef k env) = (map_of env)(k := None)"
  by (induction env) (auto simp: fun_eq_iff)

lemma map_of_cpp_define: "map_of (cpp_define k v env) = (map_of env)(k \<mapsto> v)"
  by (induction env) (auto simp: fun_eq_iff)

lemma keys_cpp_undef: "fst ` set (cpp_undef k env) = fst ` set env - {k}"
  by (simp add: dom_map_of_conv_image_fst [symmetric] map_of_cpp_undef)

lemma keys_cpp_define: "fst ` set (cpp_define k v env) = insert k (fst ` set env)"
  by (simp add: dom_map_of_conv_image_fst [symmetric] map_of_cpp_define)

lemma distinct_cpp_undef: "distinct (map fst env) \<Longrightarrow> distinct (map fst (cpp_undef k env))"
  by (induction env) (auto simp: keys_cpp_undef)

lemma distinct_cpp_define: "distinct (map fst env) \<Longrightarrow> distinct (map fst (cpp_define k v env))"
  by (induction env) (auto simp: keys_cpp_define)

lemma cpp_run_append: "cpp_run ctx (a @ b) s = cpp_run ctx b (cpp_run ctx a s)"
  by (induction a arbitrary: s) simp_all

lemma defaults_run:
  "cpp_run [] (Define ''DEVICE_CONFIG_H'' FlagV # default_defines) cpp_init =
   \<lparr>macros =
    [(''DEVICE_CONFIG_H'', FlagV), (''DEVICE_ID'', StrV ''ESP8266_001''),
     (''DEVICE_NAME'', StrV ''Kitchen Sensor Node''),
     (''DEVICE_LOCATION'', StrV ''Kitchen''),
     (''FIRMWARE_VERSION'', StrV ''2.1.0''),
     (''WIFI_SSID'', StrV ''YOUR_WIFI_NETWORK''),
     (''WIFI_PASSWORD'', StrV ''YOUR_WIFI_PASSWORD''),
     (''WIFI_CONNECT_TIMEOUT_SEC'', IntV 30),
     (''WIFI_RECONNECT_ATTEMPTS'', IntV 3),
     (''WIFI_RECONNECT_DELAY_MS'', IntV 5000),
     (''SERVER_URL'', StrV ''https://your-iot-platform.com''),
     (''SERVER_API_KEY'', StrV ''your-api-key-here''),
     (''USE_HTTPS'', BoolV True), (''SERVER_FINGERPRINT'', StrV []),
     (''HEARTBEAT_INTERVAL_SEC'', IntV 300),
     (''SENSOR_READ_INTERVAL_MS'', IntV 5000),
     (''TELEMETRY_BATCH_SIZE'', IntV 5), (''DEVICE_ARMED'', BoolV True),
     (''DEBUG_MODE'', BoolV False), (''OTA_ENABLED'', BoolV True),
     (''SENSOR_DHT_ENABLED'', BoolV True),
     (''SENSOR_DHT_PIN'', SymV ''D4''),
     (''SENSOR_DHT_TYPE'', SymV ''DHT22''),
     (''TEMP_THRESHOLD_MIN'', DecV (- 10)),
     (''TEMP_THRESHOLD_MAX'', DecV 40),
     (''HUMIDITY_THRESHOLD_MIN'', DecV 20),
     (''HUMIDITY_THRESHOLD_MAX'', DecV 80),
     (''SENSOR_LIGHT_ENABLED'', BoolV True),
     (''SENSOR_LIGHT_PIN'', SymV ''A0''),
     (''LIGHT_THRESHOLD_MIN'', IntV 100),
     (''LIGHT_THRESHOLD_MAX'', IntV 900),
     (''LIGHT_CALIBRATION_OFFSET'', DecV 0),
     (''LIGHT_CALIBRATION_MULTIPLIER'', DecV 1),
     (''SENSOR_MOTION_ENABLED'', BoolV True),
     (''SENSOR_MOTION_PIN'', SymV ''D2''),
     (''MOTION_THRESHOLD_MIN'', IntV 0), (''MOTION_THRESHOLD_MAX'', IntV 1),
     (''MOTION_DETECTION_TIMEOUT_MS'', IntV 30000),
     (''SENSOR_DISTANCE_ENABLED'', BoolV True),
     (''SENSOR_DISTANCE_TRIGGER_PIN'', SymV ''D5''),
     (''SENSOR_DISTANCE_ECHO_PIN'', SymV ''D6''),
     (''DISTANCE_THRESHOLD_MIN'', DecV 5),
     (''DISTANCE_THRESHOLD_MAX'', DecV 200),
     (''SENSOR_SOUND_ENABLED'', BoolV False),
     (''SENSOR_SOUND_PIN'', SymV ''A0''),
     (''SOUND_THRESHOLD_MIN'', IntV 100),
     (''SOUND_THRESHOLD_MAX'', IntV 800),
     (''SENSOR_MAGNETIC_ENABLED'', BoolV False),
     (''SENSOR_MAGNETIC_PIN'', SymV ''D3''),
     (''MAGNETIC_THRESHOLD_MIN'', IntV 0),
     (''MAGNETIC_THRESHOLD_MAX'', IntV 1),
     (''SENSOR_VIBRATION_ENABLED'', BoolV False),
     (''SENSOR_VIBRATION_PIN'', SymV ''D7''),
     (''VIBRATION_THRESHOLD_MIN'', IntV 0),
     (''VIBRATION_THRESHOLD_MAX'', IntV 1),
     (''SENSOR_GAS_ENABLED'', BoolV False),
     (''SENSOR_GAS_PIN'', SymV ''A0''), (''GAS_THRESHOLD_MIN'', IntV 100),
     (''GAS_THRESHOLD_MAX'', IntV 600),
     (''WATCHDOG_TIMEOUT_MS'', IntV 30000),
     (''CONFIG_EEPROM_ADDR'', IntV 0),
     (''CONFIG_MAGIC_NUMBER'', IntV 0x12345678),
     (''MAX_FAILED_CONNECTIONS'', IntV 5),
     (''USE_JSON_COMPRESSION'', BoolV False),
     (''MAX_RETRY_ATTEMPTS'', IntV 3),
     (''HTTP_REQUEST_TIMEOUT_MS'', IntV 10000),
     (''DEEP_SLEEP_ENABLED'', BoolV False),
     (''DEEP_SLEEP_DURATION_SEC'', IntV 300),
     (''BATTERY_MONITORING_ENABLED'', BoolV False),
     (''LOW_BATTERY_THRESHOLD_V'', DecV (16 / 5))],
    diagnostics = []\<rparr>"
  by code_simp

lemma registry_eq [code]:
  "registry =
    [(''DEVICE_CONFIG_H'', FlagV), (''DEVICE_ID'', StrV ''ESP8266_001''),
     (''DEVICE_NAME'', StrV ''Kitchen Sensor Node''),
     (''DEVICE_LOCATION'', StrV ''Kitchen''),
     (''FIRMWARE_VERSION'', StrV ''2.1.0''),
     (''WIFI_SSID'', StrV ''YOUR_WIFI_NETWORK''),
     (''WIFI_PASSWORD'', StrV ''YOUR_WIFI_PASSWORD''),
     (''WIFI_CONNECT_TIMEOUT_SEC'', IntV 30),
     (''WIFI_RECONNECT_ATTEMPTS'', IntV 3),
     (''WIFI_RECONNECT_DELAY_MS'', IntV 5000),
     (''SERVER_URL'', StrV ''https://your-iot-platform.com''),
     (''SERVER_API_KEY'', StrV ''your-api-key-here''),
     (''USE_HTTPS'', BoolV True), (''SERVER_FINGERPRINT'', StrV []),
     (''HEARTBEAT_INTERVAL_SEC'', IntV 300),
     (''SENSOR_READ_INTERVAL_MS'', IntV 5000),
     (''TELEMETRY_BATCH_SIZE'', IntV 5), (''DEVICE_ARMED'', BoolV True),
     (''DEBUG_MODE'', BoolV False), (''OTA_ENABLED'', BoolV True),
     (''SENSOR_DHT_ENABLED'', BoolV True),
     (''SENSOR_DHT_PIN'', SymV ''D4''),
     (''SENSOR_DHT_TYPE'', SymV ''DHT22''),
     (''TEMP_THRESHOLD_MIN'', DecV (- 10)),
     (''TEMP_THRESHOLD_MAX'', DecV 40),
     (''HUMIDITY_THRESHOLD_MIN'', DecV 20),
     (''HUMIDITY_THRESHOLD_MAX'', DecV 80),
     (''SENSOR_LIGHT_ENABLED'', BoolV True),
     (''SENSOR_LIGHT_PIN'', SymV ''A0''),
     (''LIGHT_THRESHOLD_MIN'', IntV 100),
     (''LIGHT_THRESHOLD_MAX'', IntV 900),
     (''LIGHT_CALIBRATION_OFFSET'', DecV 0),
     (''LIGHT_CALIBRATION_MULTIPLIER'', DecV 1),
     (''SENSOR_MOTION_ENABLED'', BoolV True),
     (''SENSOR_MOTION_PIN'', SymV ''D2''),
     (''MOTION_THRESHOLD_MIN'', IntV 0), (''MOTION_THRESHOLD_MAX'', IntV 1),
     (''MOTION_DETECTION_TIMEOUT_MS'', IntV 30000),
     (''SENSOR_DISTANCE_ENABLED'', BoolV True),
     (''SENSOR_DISTANCE_TRIGGER_PIN'', SymV ''D5''),
     (''SENSOR_DISTANCE_ECHO_PIN'', SymV ''D6''),
     (''DISTANCE_THRESHOLD_MIN'', DecV 5),
     (''DISTANCE_THRESHOLD_MAX'', DecV 200),
     (''SENSOR_SOUND_ENABLED'', BoolV False),
     (''SENSOR_SOUND_PIN'', SymV ''A0''),
     (''SOUND_THRESHOLD_MIN'', IntV 100),
     (''SOUND_THRESHOLD_MAX'', IntV 800),
     (''SENSOR_MAGNETIC_ENABLED'', BoolV False),
     (''SENSOR_MAGNETIC_PIN'', SymV ''D3''),
     (''MAGNETIC_THRESHOLD_MIN'', IntV 0),
     (''MAGNETIC_THRESHOLD_MAX'', IntV 1),
     (''SENSOR_VIBRATION_ENABLED'', BoolV False),
     (''SENSOR_VIBRATION_PIN'', SymV ''D7''),
     (''VIBRATION_THRESHOLD_MIN'', IntV 0),
     (''VIBRATION_THRESHOLD_MAX'', IntV 1),
     (''SENSOR_GAS_ENABLED'', BoolV False),
     (''SENSOR_GAS_PIN'', SymV ''A0''), (''GAS_THRESHOLD_MIN'', IntV 100),
     (''GAS_THRESHOLD_MAX'', IntV 600),
     (''WATCHDOG_TIMEOUT_MS'', IntV 30000),
     (''CONFIG_EEPROM_ADDR'', IntV 0),
     (''CONFIG_MAGIC_NUMBER'', IntV 0x12345678),
     (''MAX_FAILED_CONNECTIONS'', IntV 5),
     (''USE_JSON_COMPRESSION'', BoolV False),
     (''MAX_RETRY_ATTEMPTS'', IntV 3),
     (''HTTP_REQUEST_TIMEOUT_MS'', IntV 10000),
     (''DEEP_SLEEP_ENABLED'', BoolV False),
     (''DEEP_SLEEP_DURATION_SEC'', IntV 300),
     (''BATTERY_MONITORING_ENABLED'', BoolV False),
     (''LOW_BATTERY_THRESHOLD_V'', DecV (16 / 5))]"
  unfolding registry_def by (subst defaults_run) simp

lemma registry_run:
  "cpp_run [] (Define ''DEVICE_CONFIG_H'' FlagV # default_defines) cpp_init =
   \<lparr>macros = registry, diagnostics = []\<rparr>"
  unfolding registry_def by (subst (1 2) defaults_run) simp

lemma preset_run_none:
  "cpp_run [] (preset_section None) \<lparr>macros = registry, diagnostics = []\<rparr> =
   \<lparr>macros = resolve registry None, diagnostics = []\<rparr>"
  by code_simp

lemma preset_run_kitchen:
  "cpp_run [] (preset_section (Some PRESET_KITCHEN)) \<lparr>macros = registry, diagnostics = []\<rparr> =
   \<lparr>macros = resolve registry (Some (overlay_of PRESET_KITCHEN)), diagnostics = []\<rparr>"
  by code_simp

lemma preset_run_security:
  "cpp_run [] (preset_section (Some PRESET_SECURITY)) \<lparr>macros = registry, diagnostics = []\<rparr> =
   \<lparr>macros = resolve registry (Some (overlay_of PRESET_SECURITY)), diagnostics = []\<rparr>"
  by code_simp

lemma preset_run_environmental:
  "cpp_run [] (preset_section (Some PRESET_ENVIRONMENTAL)) \<lparr>macros = registry, diagnostics = []\<rparr> =
   \<lparr>macros = resolve registry (Some (overlay_of PRESET_ENVIRONMENTAL)), diagnostics = []\<rparr>"
  by code_simp

lemma preset_run:
  "cpp_run [] (preset_section sel) \<lparr>macros = registry, diagnostics = []\<rparr> =
   \<lparr>macros = resolve registry (map_option overlay_of sel), diagnostics = []\<rparr>"
proof (cases sel)
  case None
  then show ?thesis by (simp add: preset_run_none)
next
  case (Some p)
  then show ?thesis
    by (cases p) (simp_all add: preset_run_kitchen preset_run_security preset_run_environmental)
qed

lemma compile_header_eq:
  "compile_header sel =
   cpp_run [] validation_block
     \<lparr>macros = resolve registry (map_option overlay_of sel), diagnostics = []\<rparr>"
proof -
  have guard: "\<not> cpp_defined (macros cpp_init) ''DEVICE_CONFIG_H''"
    by (simp add: cpp_defined_def cpp_init_def)
  have "compile_header sel =
        cpp_run [] ((Define ''DEVICE_CONFIG_H'' FlagV # default_defines) @
                    preset_section sel @ validation_block) cpp_init"
    using guard by (simp add: compile_header_def device_config_h_def)
  also have "\<dots> = cpp_run [] validation_block
        (cpp_run [] (preset_section sel) \<lparr>macros = registry, diagnostics = []\<rparr>)"
    by (simp only: cpp_run_append registry_run)
  finally show ?thesis by (simp only: preset_run)
qed

lemma macros_report: "macros (report sev msg ctx s) = macros s"
  by (simp add: report_def)

lemma macros_if_error: "macros (cpp_exec ctx (If c [HashError m]) s) = macros s"
  by (simp add: macros_report del: eval_cond.simps split: option.splits)

lemma macros_if_warning: "macros (cpp_exec ctx (If c [HashWarning m]) s) = macros s"
  by (simp add: macros_report del: eval_cond.simps split: option.splits)

lemma macros_validation_block: "macros (cpp_run ctx validation_block s) = macros s"
  unfolding validation_block_def
  by (simp only: cpp_run.simps macros_if_error macros_if_warning)

lemma resolved_config_eq [code]:
  "resolved_config sel = resolve registry (map_option overlay_of sel)"
  unfolding resolved_config_def compile_header_eq macros_validation_block
  by (simp only: cpp_state.simps)

lemma header_diagnostics:
  "diagnostics (compile_header sel) = validate (resolved_config sel)"
  unfolding validate_def resolved_config_eq compile_header_eq ..

subsection \<open>Overrides\<close>

lemma map_of_apply_overrides_miss:
  "k \<notin> fst ` set ov \<Longrightarrow> map_of (apply_overrides ov env) k = map_of env k"
  by (induction ov arbitrary: env) (auto simp: map_of_cpp_define map_of_cpp_undef)

lemma map_of_apply_overrides_hit:
  "distinct (map fst ov) \<Longrightarrow> map_of ov k = Some v \<Longrightarrow> map_of (apply_overrides ov env) k = Some v"
proof (induction ov arbitrary: env)
  case Nil
  then show ?case by simp
next
  case (Cons p ov)
  obtain k' v' where p: "p = (k', v')" by (cases p)
  show ?case
  proof (cases "k' = k")
    case True
    with Cons.prems p have "v' = v" and "k \<notin> fst ` set ov" by auto
    then show ?thesis
      using p True by (simp add: map_of_apply_overrides_miss map_of_cpp_define)
  next
    case False
    with Cons.prems p have "distinct (map fst ov)" and "map_of ov k = Some v" by auto
    then show ?thesis using p Cons.IH by simp
  qed
qed

lemma entries_for_cpp_undef:
  "entries_for (cpp_undef k env) k' = (if k' = k then [] else entries_for env k')"
  by (induction env) (auto simp: entries_for_def)

lemma entries_for_cpp_define_other:
  "k' \<noteq> k \<Longrightarrow> entries_for (cpp_define k v env) k' = entries_for env k'"
  by (induction env) (auto simp: entries_for_def)

lemma entries_for_cpp_define_fresh:
  "entries_for env k = [] \<Longrightarrow> entries_for (cpp_define k v env) k = [v]"
  by (induction env) (auto simp: entries_for_def split: if_splits)

lemma entries_for_apply_overrides_miss:
  "k \<notin> fst ` set ov \<Longrightarrow> entries_for (apply_overrides ov env) k = entries_for env k"
  by (induction ov arbitrary: env)
     (auto simp: entries_for_cpp_undef entries_for_cpp_define_other)

lemma entries_for_apply_overrides_hit:
  "distinct (map fst ov) \<Longrightarrow> map_of ov k = Some v \<Longrightarrow> entries_for (apply_overrides ov env) k = [v]"
proof (induction ov arbitrary: env)
  case Nil
  then show ?case by simp
next
  case (Cons p ov)
  obtain k' v' where p: "p = (k', v')" by (cases p)
  show ?case
  proof (cases "k' = k")
    case True
    with Cons.prems p have "v' = v" and "k \<notin> fst ` set ov" by auto
    then show ?thesis
      using p True
      by (simp add: entries_for_apply_overrides_miss entries_for_cpp_define_fresh
          entries_for_cpp_undef)
  next
    case False
    with Cons.prems p have "distinct (map fst ov)" and "map_of ov k = Some v" by auto
    then show ?thesis using p Cons.IH by simp
  qed
qed

lemma default_heartbeat: "map_of registry ''HEARTBEAT_INTERVAL_SEC'' = Some (IntV 300)"
  by code_simp

lemma security_overlay_heartbeat:
  "map_of (overrides (overlay_of PRESET_SECURITY)) ''HEARTBEAT_INTERVAL_SEC'' = Some (IntV 60)"
  by code_simp

lemma security_overlay_distinct: "distinct (map fst (overrides (overlay_of PRESET_SECURITY)))"
  by code_simp

lemma security_heartbeat:
  "map_of (resolved_config (Some PRESET_SECURITY)) ''HEARTBEAT_INTERVAL_SEC'' = Some (IntV 60)"
  by code_simp

text \<open>
  C1. Override precedence. For every registry and every overlay (a map: its keys are
  distinct), a key the overlay binds to \<open>v\<close> is bound to \<open>v\<close> in the resolved
  configuration, and \<open>v\<close> is the only value the configuration holds for it: nothing of
  the registry's entry is left. In the header, \<^verbatim>\<open>HEARTBEAT_INTERVAL_SEC\<close> is 300 by
  default, the security preset overrides it to 60, and the header compiled with that
  preset has 60.
\<close>

theorem override_precedence:
  assumes "distinct (map fst (overrides ov))"
    and "map_of (overrides ov) k = Some v"
  shows "map_of (resolve reg (Some ov)) k = Some v \<and>
         entries_for (resolve reg (Some ov)) k = [v] \<and>
         map_of registry ''HEARTBEAT_INTERVAL_SEC'' = Some (IntV 300) \<and>
         map_of (overrides (overlay_of PRESET_SECURITY)) ''HEARTBEAT_INTERVAL_SEC'' = Some (IntV 60) \<and>
         map_of (resolved_config (Some PRESET_SECURITY)) ''HEARTBEAT_INTERVAL_SEC'' = Some (IntV 60)"
proof -
  have "map_of (resolve reg (Some ov)) k = Some v"
    using assms by (simp add: resolve_def map_of_apply_overrides_hit)
  moreover have "entries_for (resolve reg (Some ov)) k = [v]"
    using assms by (simp add: resolve_def entries_for_apply_overrides_hit)
  ultimately show ?thesis
    using default_heartbeat security_overlay_heartbeat security_heartbeat by blast
qed

theorem override_precedence_witness:
  "distinct (map fst (overrides (overlay_of PRESET_SECURITY))) \<and>
   map_of (overrides (overlay_of PRESET_SECURITY)) ''HEARTBEAT_INTERVAL_SEC'' = Some (IntV 60) \<and>
   map_of (resolve registry (Some (overlay_of PRESET_SECURITY))) ''HEARTBEAT_INTERVAL_SEC'' =
     Some (IntV 60) \<and>
   entries_for (resolve registry (Some (overlay_of PRESET_SECURITY))) ''HEARTBEAT_INTERVAL_SEC'' =
     [IntV 60]"
  using override_precedence [OF security_overlay_distinct security_overlay_heartbeat, of registry]
    security_overlay_distinct security_overlay_heartbeat
  by blast

subsection \<open>Coverage\<close>

lemma entries_for_absent: "k \<notin> fst ` set env \<Longrightarrow> entries_for env k = []"
  by (induction env) (auto simp: entries_for_def)

lemma entries_for_distinct:
  "distinct (map fst env) \<Longrightarrow> k \<in> fst ` set env \<Longrightarrow> length (entries_for env k) = 1"
proof (induction env)
  case Nil
  then show ?case by simp
next
  case (Cons p env)
  show ?case
  proof (cases "fst p = k")
    case True
    with Cons.prems have "k \<notin> fst ` set env" by auto
    then have "entries_for env k = []" by (rule entries_for_absent)
    then show ?thesis using True by (simp add: entries_for_def)
  next
    case False
    with Cons.prems have "distinct (map fst env)" and "k \<in> fst ` set env" by auto
    then have "length (entries_for env k) = 1" by (rule Cons.IH)
    then show ?thesis using False by (simp add: entries_for_def)
  qed
qed

lemma distinct_apply_overrides:
  "distinct (map fst env) \<Longrightarrow> distinct (map fst (apply_overrides ov env))"
  by (induction ov arbitrary: env) (auto simp: distinct_cpp_define distinct_cpp_undef)

lemma keys_apply_overrides:
  "fst ` set (apply_overrides ov env) = fst ` set env \<union> fst ` set ov"
proof (induction ov arbitrary: env)
  case Nil
  then show ?case by simp
next
  case (Cons p ov)
  obtain k v where p: "p = (k, v)" by (cases p)
  have "fst ` set (apply_overrides (p # ov) env) =
        fst ` set (cpp_define k v (cpp_undef k env)) \<union> fst ` set ov"
    using Cons.IH p by simp
  also have "\<dots> = insert k (fst ` set env - {k}) \<union> fst ` set ov"
    by (simp only: keys_cpp_define keys_cpp_undef)
  also have "\<dots> = fst ` set env \<union> fst ` set (p # ov)"
    using p by auto
  finally show ?case .
qed

lemma distinct_resolve: "distinct (map fst reg) \<Longrightarrow> distinct (map fst (resolve reg sel))"
  by (cases sel) (simp_all add: resolve_def distinct_apply_overrides distinct_cpp_define)

lemma keys_resolve: "fst ` set reg \<subseteq> fst ` set (resolve reg sel)"
  by (cases sel) (auto simp: resolve_def keys_apply_overrides keys_cpp_define)

lemma registry_distinct: "distinct (map fst registry)"
  by code_simp

text \<open>
  C7. Total coverage. For every registry (a macro table: one definition per name) and
  every overlay choice, none included, the resolved configuration holds exactly one
  value for every key of the registry, and no key of the resolved configuration has two
  entries. For the header itself: whichever preset is selected, every name of the
  compiled-in defaults has exactly one value in the compiled configuration.
\<close>

theorem total_coverage:
  assumes "distinct (map fst reg)"
    and "k \<in> fst ` set reg"
  shows "length (entries_for (resolve reg sel) k) = 1 \<and>
         distinct (map fst (resolve reg sel)) \<and>
         list_all (\<lambda>k. length (entries_for (resolved_config psel) k) = 1) (map fst registry)"
proof -
  have d: "distinct (map fst (resolve reg sel))"
    using assms(1) by (rule distinct_resolve)
  have "k \<in> fst ` set (resolve reg sel)"
    using assms(2) keys_resolve by blast
  with d have one: "length (entries_for (resolve reg sel) k) = 1"
    by (rule entries_for_distinct)
  have "length (entries_for (resolved_config psel) k') = 1" if "k' \<in> fst ` set registry" for k'
  proof -
    have "distinct (map fst (resolved_config psel))"
      unfolding resolved_config_eq using registry_distinct by (rule distinct_resolve)
    moreover have "k' \<in> fst ` set (resolved_config psel)"
      unfolding resolved_config_eq using that keys_resolve by blast
    ultimately show ?thesis by (rule entries_for_distinct)
  qed
  then have "list_all (\<lambda>k. length (entries_for (resolved_config psel) k) = 1) (map fst registry)"
    by (simp add: list_all_iff)
  with d one show ?thesis by blast
qed

lemma heartbeat_in_registry: "''HEARTBEAT_INTERVAL_SEC'' \<in> fst ` set registry"
  by code_simp

lemma heartbeat_entries_security:
  "entries_for (resolve registry (Some (overlay_of PRESET_SECURITY))) ''HEARTBEAT_INTERVAL_SEC'' =
   [IntV 60]"
  by code_simp

theorem total_coverage_witness:
  "distinct (map fst registry) \<and>
   ''HEARTBEAT_INTERVAL_SEC'' \<in> fst ` set registry \<and>
   length (entries_for (resolve registry (Some (overlay_of PRESET_SECURITY)))
      ''HEARTBEAT_INTERVAL_SEC'') = 1 \<and>
   entries_for (resolve registry (Some (overlay_of PRESET_SECURITY))) ''HEARTBEAT_INTERVAL_SEC'' =
     [IntV 60]"
  using total_coverage [OF registry_distinct heartbeat_in_registry,
      of "Some (overlay_of PRESET_SECURITY)" None]
    registry_distinct heartbeat_in_registry heartbeat_entries_security
  by blast

subsection \<open>The compiled-in configurations\<close>

lemma default_compiles_clean: "diagnostics (compile_header None) = []"
  unfolding header_diagnostics by code_simp

lemma default_validate: "validate (resolved_config None) = []"
  by code_simp

lemma default_activatable: "activatable (resolved_config None)"
  by code_simp

lemma default_no_warnings: "warnings_of (validate (resolved_config None)) = []"
  by code_simp

lemma default_required_present: "list_all (nonempty_string (resolved_config None)) required_keys"
  by code_simp

lemma default_thresholds_ordered:
  "list_all (threshold_ordered (resolved_config None)) threshold_quantities"
  by code_simp

lemma default_a0_sensors:
  "map fst (filter (\<lambda>p. snd p = SymV ''A0'') (resolved_config None)) =
   [pin_key ''LIGHT'', pin_key ''SOUND'', pin_key ''GAS'']"
  by code_simp

lemma default_a0_enabled:
  "map (sensor_enabled (resolved_config None)) [''LIGHT'', ''SOUND'', ''GAS''] =
   [True, False, False]"
  by code_simp

text \<open>
  C9. The header compiled with no preset selected produces no diagnostic at all: no error
  and no warning, so the configuration is activatable. The two identity fields and the
  three connectivity fields are non-empty strings; each of the nine threshold pairs has
  its minimum strictly below its maximum; the macros bound to pin \<^verbatim>\<open>A0\<close> are the
  pins of the light, sound and gas sensors, and of these three only the light sensor is
  enabled.
\<close>

theorem default_config_clean:
  "diagnostics (compile_header None) = [] \<and>
   validate (resolved_config None) = [] \<and>
   activatable (resolved_config None) \<and>
   warnings_of (validate (resolved_config None)) = [] \<and>
   list_all (nonempty_string (resolved_config None)) required_keys \<and>
   list_all (threshold_ordered (resolved_config None)) threshold_quantities \<and>
   map fst (filter (\<lambda>p. snd p = SymV ''A0'') (resolved_config None)) =
     [pin_key ''LIGHT'', pin_key ''SOUND'', pin_key ''GAS''] \<and>
   map (sensor_enabled (resolved_config None)) [''LIGHT'', ''SOUND'', ''GAS''] =
     [True, False, False]"
  using default_compiles_clean default_validate default_activatable default_no_warnings
    default_required_present default_thresholds_ordered default_a0_sensors default_a0_enabled
  by blast

lemma environmental_validate:
  "validate (resolved_config (Some PRESET_ENVIRONMENTAL)) = [light_gas_warning]"
  by code_simp

lemma environmental_compiles:
  "diagnostics (compile_header (Some PRESET_ENVIRONMENTAL)) = [light_gas_warning]"
  unfolding header_diagnostics by (rule environmental_validate)

lemma environmental_activatable: "activatable (resolved_config (Some PRESET_ENVIRONMENTAL))"
  by code_simp

lemma environmental_overrides:
  "map (map_of (overrides (overlay_of PRESET_ENVIRONMENTAL)))
     [enabled_key ''GAS'', enabled_key ''LIGHT''] = [Some (BoolV True), None]"
  by code_simp

lemma environmental_a0:
  "map (sensor_enabled (resolved_config (Some PRESET_ENVIRONMENTAL))) [''LIGHT'', ''GAS''] =
     [True, True] \<and>
   map (sensor_pin (resolved_config (Some PRESET_ENVIRONMENTAL))) [''LIGHT'', ''GAS''] =
     [Some (SymV ''A0''), Some (SymV ''A0'')]"
  by code_simp

lemma light_gas_warning_shape:
  "severity light_gas_warning = Warning \<and>
   affected light_gas_warning = [enabled_key ''LIGHT'', enabled_key ''GAS'']"
  by code_simp

text \<open>
  C10. The environmental preset overrides \<^verbatim>\<open>SENSOR_GAS_ENABLED\<close> to true and does not
  touch \<^verbatim>\<open>SENSOR_LIGHT_ENABLED\<close>, so both sensors of pin \<^verbatim>\<open>A0\<close> are enabled. The
  header compiled with that preset produces exactly one diagnostic, the light/gas warning,
  which names both enable flags; the defaults produce none. The warning is not an error:
  the configuration is activatable.
\<close>

theorem environmental_pin_conflict:
  "validate (resolved_config (Some PRESET_ENVIRONMENTAL)) = [light_gas_warning] \<and>
   diagnostics (compile_header (Some PRESET_ENVIRONMENTAL)) = [light_gas_warning] \<and>
   severity light_gas_warning = Warning \<and>
   affected light_gas_warning = [enabled_key ''LIGHT'', enabled_key ''GAS''] \<and>
   activatable (resolved_config (Some PRESET_ENVIRONMENTAL)) \<and>
   map (map_of (overrides (overlay_of PRESET_ENVIRONMENTAL)))
     [enabled_key ''GAS'', enabled_key ''LIGHT''] = [Some (BoolV True), None] \<and>
   map (sensor_enabled (resolved_config (Some PRESET_ENVIRONMENTAL))) [''LIGHT'', ''GAS''] =
     [True, True] \<and>
   map (sensor_pin (resolved_config (Some PRESET_ENVIRONMENTAL))) [''LIGHT'', ''GAS''] =
     [Some (SymV ''A0''), Some (SymV ''A0'')] \<and>
   validate (resolved_config None) = []"
  using environmental_validate environmental_compiles environmental_activatable
    environmental_overrides environmental_a0 light_gas_warning_shape default_validate
  by blast

lemma sound_gas_validate: "validate sound_gas_config = []"
  by code_simp

lemma sound_gas_a0:
  "map (sensor_enabled sound_gas_config) [''LIGHT'', ''SOUND'', ''GAS''] = [False, True, True] \<and>
   map (sensor_pin sound_gas_config) [''SOUND'', ''GAS''] =
     [Some (SymV ''A0''), Some (SymV ''A0'')]"
  by code_simp

lemma light_sound_validate:
  "validate (edit_header [(enabled_key ''SOUND'', BoolV True)]) = [light_sound_warning]"
  by code_simp

lemma light_gas_validate:
  "validate (edit_header [(enabled_key ''GAS'', BoolV True)]) = [light_gas_warning]"
  by code_simp

text \<open>
  C2. The validation block warns when the light sensor is enabled together with the
  sound sensor, and when it is enabled together with the gas sensor. The third pair on
  pin \<^verbatim>\<open>A0\<close> is not tested: with the light sensor disabled and the sound and gas
  sensors both enabled, both on \<^verbatim>\<open>A0\<close>, the header compiles without any diagnostic.
\<close>

theorem sound_gas_conflict_unreported:
  "map (sensor_enabled sound_gas_config) [''LIGHT'', ''SOUND'', ''GAS''] = [False, True, True] \<and>
   map (sensor_pin sound_gas_config) [''SOUND'', ''GAS''] =
     [Some (SymV ''A0''), Some (SymV ''A0'')] \<and>
   validate sound_gas_config = [] \<and>
   validate (edit_header [(enabled_key ''SOUND'', BoolV True)]) = [light_sound_warning] \<and>
   validate (edit_header [(enabled_key ''GAS'', BoolV True)]) = [light_gas_warning]"
  using sound_gas_validate sound_gas_a0 light_sound_validate light_gas_validate
  by blast

subsection \<open>What the validation block reads\<close>

lemma eval_cond_cong:
  "(\<And>k. k \<in> set (cond_macros c) \<Longrightarrow> map_of e1 k = map_of e2 k) \<Longrightarrow>
   eval_cond e1 c = eval_cond e2 c"
  by (induction c) (auto simp: cpp_defined_def split: option.splits)

lemma guarded_issue_cong:
  "(\<And>k. k \<in> set (cond_macros c) \<Longrightarrow> map_of e1 k = map_of e2 k) \<Longrightarrow>
   guarded_issue e1 c sev msg = guarded_issue e2 c sev msg"
  unfolding guarded_issue_def by (simp add: eval_cond_cong [of c e1 e2])

lemma diagnostics_if_error:
  "diagnostics (cpp_exec ctx (If c [HashError m]) s) =
   diagnostics s @ guarded_issue (macros s) c Error m"
  by (simp add: guarded_issue_def report_def del: eval_cond.simps split: option.splits)

lemma diagnostics_if_warning:
  "diagnostics (cpp_exec ctx (If c [HashWarning m]) s) =
   diagnostics s @ guarded_issue (macros s) c Warning m"
  by (simp add: guarded_issue_def report_def del: eval_cond.simps split: option.splits)

lemma validate_unfold:
  "validate cfg =
   guarded_issue cfg (Or (Not (Defined ''WIFI_SSID'')) (Not (Defined ''WIFI_PASSWORD''))) Error
     ''WiFi credentials must be configured in WIFI_SSID and WIFI_PASSWORD'' @
   guarded_issue cfg (Not (Defined ''SERVER_URL'')) Error
     ''Server URL must be configured in SERVER_URL'' @
   guarded_issue cfg (And (Macro ''SENSOR_LIGHT_ENABLED'') (Macro ''SENSOR_SOUND_ENABLED'')) Warning
     ''Light and Sound sensors both use A0 - only one can be enabled'' @
   guarded_issue cfg (And (Macro ''SENSOR_LIGHT_ENABLED'') (Macro ''SENSOR_GAS_ENABLED'')) Warning
     ''Light and Gas sensors both use A0 - only one can be enabled''"
  unfolding validate_def validation_block_def
  by (simp only: cpp_run.simps diagnostics_if_error diagnostics_if_warning macros_if_error
      macros_if_warning cpp_state.simps append_Nil append_assoc)

lemma validation_macros_eq:
  "validation_macros =
   [''WIFI_SSID'', ''WIFI_PASSWORD'', ''SERVER_URL'', ''SENSOR_SOUND_ENABLED'',
    ''SENSOR_LIGHT_ENABLED'', ''SENSOR_GAS_ENABLED'']"
  by code_simp

lemma validate_cong:
  assumes "\<And>k. k \<in> set validation_macros \<Longrightarrow> map_of c1 k = map_of c2 k"
  shows "validate c1 = validate c2"
proof -
  have "guarded_issue c1 c sev msg = guarded_issue c2 c sev msg"
    if "set (cond_macros c) \<subseteq> set validation_macros" for c sev msg
    using that assms by (intro guarded_issue_cong) auto
  then show ?thesis
    unfolding validate_unfold by (simp add: validation_macros_eq)
qed

lemma validate_apply_overrides:
  assumes "fst ` set changes \<inter> set validation_macros = {}"
  shows "validate (apply_overrides changes cfg) = validate cfg"
proof (rule validate_cong)
  fix k
  assume "k \<in> set validation_macros"
  with assms have "k \<notin> fst ` set changes" by auto
  then show "map_of (apply_overrides changes cfg) k = map_of cfg k"
    by (rule map_of_apply_overrides_miss)
qed

subsection \<open>Thresholds\<close>

lemma threshold_keys_unread:
  "q \<in> set threshold_quantities \<Longrightarrow>
   min_key q \<notin> set validation_macros \<and> max_key q \<notin> set validation_macros"
  by (auto simp: threshold_quantities_def validation_macros_eq min_key_def max_key_def)

lemma compiled_thresholds_ordered:
  "list_all (threshold_ordered (resolved_config sel)) threshold_quantities"
proof (cases sel)
  case None
  then show ?thesis by (simp add: default_thresholds_ordered)
next
  case (Some p)
  have "list_all (threshold_ordered (resolved_config (Some PRESET_KITCHEN))) threshold_quantities"
    by code_simp
  moreover
  have "list_all (threshold_ordered (resolved_config (Some PRESET_SECURITY))) threshold_quantities"
    by code_simp
  moreover
  have "list_all (threshold_ordered (resolved_config (Some PRESET_ENVIRONMENTAL))) threshold_quantities"
    by code_simp
  ultimately show ?thesis using Some by (cases p) simp_all
qed

lemma inverted_temp_values:
  "threshold_of inverted_temp_config (min_key ''TEMP'') = Some 40 \<and>
   threshold_of inverted_temp_config (max_key ''TEMP'') = Some (- 10)"
  by code_simp

lemma inverted_temp_unordered: "\<not> threshold_ordered inverted_temp_config ''TEMP''"
  by code_simp

lemma inverted_temp_validate: "validate inverted_temp_config = []"
  by code_simp

lemma inverted_temp_activatable: "activatable inverted_temp_config"
  by code_simp

text \<open>
  C3, as stated, fails on the header: the validation block compares no thresholds. With
  \<^verbatim>\<open>TEMP_THRESHOLD_MIN\<close> 40.0 and \<^verbatim>\<open>TEMP_THRESHOLD_MAX\<close> -10.0 (the pair is
  inverted) the header compiles without any diagnostic, and the configuration is
  activatable.
\<close>

theorem threshold_inverted_counterexample:
  "threshold_of inverted_temp_config (min_key ''TEMP'') = Some 40 \<and>
   threshold_of inverted_temp_config (max_key ''TEMP'') = Some (- 10) \<and>
   \<not> threshold_ordered inverted_temp_config ''TEMP'' \<and>
   validate inverted_temp_config = [] \<and>
   activatable inverted_temp_config"
  using inverted_temp_values inverted_temp_unordered inverted_temp_validate
    inverted_temp_activatable
  by blast

text \<open>
  C3, amended. Threshold pairs are not validated. For every configuration and every
  paired threshold, setting the pair to any two values, ordered or inverted, leaves the
  issue sequence of \<open>validate\<close> unchanged, and with it whether the configuration is
  activatable. The header's own values are in order: whichever preset is selected, every
  pair of the compiled configuration has its minimum strictly below its maximum.
\<close>

theorem validate_ignores_thresholds:
  assumes "q \<in> set threshold_quantities"
  shows "validate (apply_overrides [(min_key q, lo), (max_key q, hi)] cfg) = validate cfg \<and>
         activatable (apply_overrides [(min_key q, lo), (max_key q, hi)] cfg) = activatable cfg \<and>
         list_all (threshold_ordered (resolved_config sel)) threshold_quantities"
proof -
  have "fst ` set [(min_key q, lo), (max_key q, hi)] \<inter> set validation_macros = {}"
    using threshold_keys_unread [OF assms] by simp
  then have "validate (apply_overrides [(min_key q, lo), (max_key q, hi)] cfg) = validate cfg"
    by (rule validate_apply_overrides)
  then show ?thesis
    using compiled_thresholds_ordered [of sel] by (simp add: activatable_def)
qed

lemma temp_is_quantity: "''TEMP'' \<in> set threshold_quantities"
  by (simp add: threshold_quantities_def)

theorem validate_ignores_thresholds_witness:
  "''TEMP'' \<in> set threshold_quantities \<and>
   validate (apply_overrides [(min_key ''TEMP'', DecV 40), (max_key ''TEMP'', DecV (- 10))] registry) =
     validate registry \<and>
   activatable (apply_overrides [(min_key ''TEMP'', DecV 40), (max_key ''TEMP'', DecV (- 10))] registry) =
     activatable registry"
  using validate_ignores_thresholds [OF temp_is_quantity, of "DecV 40" "DecV (- 10)" registry None]
    temp_is_quantity
  by blast

subsection \<open>Required fields\<close>


















subsection \<open>The failure count\<close>

lemma run_events_snoc: "run_events (evs @ [e]) = on_event (run_events evs) e"
  by (simp add: run_events_def)

lemma trailing_failures_snoc:
  "trailing_failures (evs @ [e]) =
   (case e of ConnectSuccess \<Rightarrow> 0 | ConnectFailure \<Rightarrow> Suc (trailing_failures evs))"
  by (cases e) (simp_all add: trailing_failures_def)

lemma run_events_trailing: "run_events evs = trailing_failures evs"
proof (induction evs rule: rev_induct)
  case Nil
  then show ?case by (simp add: run_events_def trailing_failures_def)
next
  case (snoc e evs)
  then show ?case
    by (cases e) (simp_all add: run_events_snoc trailing_failures_snoc)
qed

lemma run_events_failures: "run_events (replicate n ConnectFailure) = n"
  by (simp add: run_events_trailing trailing_failures_def)

lemma compiled_failure_ceiling: "failure_ceiling (resolved_config sel) = Some 5"
proof (cases sel)
  case None
  have "failure_ceiling (resolved_config None) = Some 5" by code_simp
  with None show ?thesis by simp
next
  case (Some p)
  have "failure_ceiling (resolved_config (Some PRESET_KITCHEN)) = Some 5" by code_simp
  moreover have "failure_ceiling (resolved_config (Some PRESET_SECURITY)) = Some 5" by code_simp
  moreover have "failure_ceiling (resolved_config (Some PRESET_ENVIRONMENTAL)) = Some 5" by code_simp
  ultimately show ?thesis using Some by (cases p) simp_all
qed

text \<open>
  C8. The count after a trace of connectivity events is the number of failures since the
  last success, so a restart is requested exactly when the trace ends with at least as
  many consecutive failures as the ceiling, and is not requested after fewer. The
  header sets the ceiling to 5 whichever preset is selected: after four failures in a
  row no restart is requested, after five it is, and a success in between starts the
  count again. The request is a value read from the count; the guard goes on counting.
\<close>

theorem restart_request_signalling:
  "run_events evs = trailing_failures evs \<and>
   restart_requested limit (run_events evs) = (limit \<le> trailing_failures evs) \<and>
   failure_ceiling (resolved_config sel) = Some 5 \<and>
   map (\<lambda>n. restart_requested 5 (run_events (replicate n ConnectFailure))) [0, 1, 2, 3, 4, 5, 6] =
     [False, False, False, False, False, True, True] \<and>
   restart_requested 5
     (run_events (replicate 4 ConnectFailure @ [ConnectSuccess] @ replicate 4 ConnectFailure)) =
     False \<and>
   run_events (replicate 6 ConnectFailure) = 6"
proof -
  have "restart_requested 5
     (run_events (replicate 4 ConnectFailure @ [ConnectSuccess] @ replicate 4 ConnectFailure)) =
     False"
    by code_simp
  moreover have
    "map (\<lambda>n. restart_requested 5 (run_events (replicate n ConnectFailure))) [0, 1, 2, 3, 4, 5, 6] =
     [False, False, False, False, False, True, True]"
    by code_simp
  ultimately show ?thesis
    using run_events_trailing [of evs] compiled_failure_ceiling [of sel]
      run_events_failures [of 6]
    by (simp add: restart_requested_def)
qed

subsection \<open>Load, save and the fallback\<close>

lemma compiled_activatable: "activatable (resolved_config sel)"
proof (cases sel)
  case None
  then show ?thesis by (simp add: default_activatable)
next
  case (Some p)
  have "activatable (resolved_config (Some PRESET_KITCHEN))" by code_simp
  moreover have "activatable (resolved_config (Some PRESET_SECURITY))" by code_simp
  ultimately show ?thesis using Some environmental_activatable by (cases p) simp_all
qed

lemma load_corrupt:
  assumes "schema_version r \<notin> set (known_versions c) \<or> tag_bytes c (payload r) \<noteq> integrity_tag r"
  shows "load c (Some r) = CORRUPT"
  using assms by (auto simp: load_def)

lemma save_activatable:
  "activatable cfg \<Longrightarrow>
   save c cfg st =
   Inr (Some \<lparr>schema_version = current_version c,
              integrity_tag = tag_bytes c (encode c cfg),
              payload = encode c cfg\<rparr>)"
  by (simp add: save_def)

subsection \<open>Corrupt records\<close>

lemma flip_changes: "(x::32 word) XOR 0xFF \<noteq> x"
proof
  assume "x XOR 0xFF = x"
  then have "even (x XOR 0xFF) = even x" by simp
  then show False by (simp add: even_xor_iff)
qed

lemma flipped_tag_mismatch:
  "tag_bytes sample_codec (payload flipped_tag_record) \<noteq> integrity_tag flipped_tag_record"
  using flip_changes [of "tag_bytes sample_codec (encode sample_codec (resolved_config None))"]
  by (simp add: flipped_tag_record_def)

lemma flipped_tag_version: "schema_version flipped_tag_record \<in> set (known_versions sample_codec)"
  by (simp add: flipped_tag_record_def sample_codec_def)

lemma future_record_version: "schema_version future_record \<notin> set (known_versions sample_codec)"
  by (simp add: future_record_def sample_codec_def)

lemma boot_fallback:
  assumes "load c st = CORRUPT"
  shows "boot c sel st =
         (resolved_config sel,
          Some \<lparr>schema_version = current_version c,
                integrity_tag = tag_bytes c (encode c (resolved_config sel)),
                payload = encode c (resolved_config sel)\<rparr>)"
  using assms by (simp add: boot_def Let_def save_activatable [OF compiled_activatable])

text \<open>
  C4. For every stored record and every record format: if the record's schema version is
  not a recognised one, or its tag differs from the tag recomputed over its bytes, then
  \<open>load\<close> answers \<open>CORRUPT\<close> (an outcome, not a configuration and not a failure of
  the call). The boot path then takes the configuration resolved from the compiled-in
  header, which equals \<open>resolve registry overlay\<close> for the selected preset and is
  activatable, and repairs the store with what \<open>save\<close> writes for it.
\<close>

theorem corrupt_load_fallback:
  assumes "schema_version r \<notin> set (known_versions c) \<or> tag_bytes c (payload r) \<noteq> integrity_tag r"
  shows "load c (Some r) = CORRUPT \<and>
         fst (boot c sel (Some r)) = resolve registry (map_option overlay_of sel) \<and>
         activatable (fst (boot c sel (Some r))) \<and>
         save c (resolved_config sel) (Some r) = Inr (snd (boot c sel (Some r)))"
proof -
  have corrupt: "load c (Some r) = CORRUPT"
    using assms by (rule load_corrupt)
  have "fst (boot c sel (Some r)) = resolved_config sel"
    by (simp add: boot_fallback [OF corrupt])
  moreover have "save c (resolved_config sel) (Some r) = Inr (snd (boot c sel (Some r)))"
    by (simp add: boot_fallback [OF corrupt] save_activatable [OF compiled_activatable])
  ultimately show ?thesis
    using corrupt compiled_activatable [of sel] by (simp add: resolved_config_eq)
qed

theorem corrupt_load_fallback_witness:
  "schema_version flipped_tag_record \<in> set (known_versions sample_codec) \<and>
   tag_bytes sample_codec (payload flipped_tag_record) \<noteq> integrity_tag flipped_tag_record \<and>
   load sample_codec (Some flipped_tag_record) = CORRUPT \<and>
   fst (boot sample_codec (Some PRESET_SECURITY) (Some flipped_tag_record)) =
     resolve registry (Some (overlay_of PRESET_SECURITY)) \<and>
   activatable (fst (boot sample_codec (Some PRESET_SECURITY) (Some flipped_tag_record))) \<and>
   schema_version future_record \<notin> set (known_versions sample_codec) \<and>
   load sample_codec (Some future_record) = CORRUPT"
proof -
  have "schema_version flipped_tag_record \<notin> set (known_versions sample_codec) \<or>
        tag_bytes sample_codec (payload flipped_tag_record) \<noteq> integrity_tag flipped_tag_record"
    using flipped_tag_mismatch by (rule disjI2)
  from corrupt_load_fallback [OF this, of "Some PRESET_SECURITY", unfolded option.map]
  have flipped: "load sample_codec (Some flipped_tag_record) = CORRUPT \<and>
      fst (boot sample_codec (Some PRESET_SECURITY) (Some flipped_tag_record)) =
        resolve registry (Some (overlay_of PRESET_SECURITY)) \<and>
      activatable (fst (boot sample_codec (Some PRESET_SECURITY) (Some flipped_tag_record)))"
    by blast
  have "schema_version future_record \<notin> set (known_versions sample_codec) \<or>
        tag_bytes sample_codec (payload future_record) \<noteq> integrity_tag future_record"
    using future_record_version by (rule disjI1)
  from corrupt_load_fallback [OF this, of None]
  have "load sample_codec (Some future_record) = CORRUPT"
    by blast
  with flipped show ?thesis
    using flipped_tag_version flipped_tag_mismatch future_record_version by blast
qed

end
